theory Spec2Isabelle
  imports Main "HOL-Library.Word"
begin

section \<open>JavaScript values used by server.ts\<close>

text \<open>
  A JavaScript string is a sequence of 16-bit code units. String literals of the source
  are ASCII; \<open>lit\<close> turns a HOL literal into its code units.
\<close>

type_synonym jsstring = "16 word list"

definition lit :: "string \<Rightarrow> jsstring" where
  "lit s = map of_char s"

text \<open>
  A value caught by a \<open>catch\<close> clause: an instance of \<open>Error\<close> with its
  \<open>message\<close>, or any other thrown value (for which \<open>error instanceof Error\<close> is false).
\<close>

datatype thrown = Error jsstring | NotAnError

text \<open>Truthiness of an optional string: \<open>undefined\<close> and \<open>''\<close> are falsy.\<close>

fun truthy :: "jsstring option \<Rightarrow> bool" where
  "truthy None = False"
| "truthy (Some s) = (s \<noteq> [])"

subsection \<open>The built-in encodeURIComponent\<close>

text \<open>
  ECMAScript's \<open>Encode\<close> with the unescaped set of \<open>encodeURIComponent\<close>: letters,
  digits and \<open>- _ . ! ~ * ' ( )\<close> are kept, every other code point is written as the
  percent-escaped octets of its UTF-8 form, and an unpaired surrogate throws a URIError.
\<close>

definition uriUnescaped :: "16 word \<Rightarrow> bool" where
  "uriUnescaped c \<longleftrightarrow>
     (0x41 \<le> c \<and> c \<le> 0x5A) \<or> (0x61 \<le> c \<and> c \<le> 0x7A) \<or> (0x30 \<le> c \<and> c \<le> 0x39) \<or>
     c \<in> {0x2D, 0x5F, 0x2E, 0x21, 0x7E, 0x2A, 0x27, 0x28, 0x29}"

definition isLeadSurrogate :: "16 word \<Rightarrow> bool" where
  "isLeadSurrogate c \<longleftrightarrow> 0xD800 \<le> c \<and> c \<le> 0xDBFF"

definition isTrailSurrogate :: "16 word \<Rightarrow> bool" where
  "isTrailSurrogate c \<longleftrightarrow> 0xDC00 \<le> c \<and> c \<le> 0xDFFF"

definition surrogatePair :: "16 word \<Rightarrow> 16 word \<Rightarrow> nat" where
  "surrogatePair lead trail = (unat lead - 0xD800) * 0x400 + (unat trail - 0xDC00) + 0x10000"

definition utf8 :: "nat \<Rightarrow> nat list" where
  "utf8 cp =
     (if cp < 0x80 then [cp]
      else if cp < 0x800 then [0xC0 + cp div 0x40, 0x80 + cp mod 0x40]
      else if cp < 0x10000 then
        [0xE0 + cp div 0x1000, 0x80 + cp div 0x40 mod 0x40, 0x80 + cp mod 0x40]
      else
        [0xF0 + cp div 0x40000, 0x80 + cp div 0x1000 mod 0x40,
         0x80 + cp div 0x40 mod 0x40, 0x80 + cp mod 0x40])"

definition hexDigit :: "nat \<Rightarrow> 16 word" where
  "hexDigit n = (if n < 10 then 0x30 + of_nat n else 0x41 + of_nat (n - 10))"

definition escapeOctet :: "nat \<Rightarrow> jsstring" where
  "escapeOctet b = [0x25, hexDigit (b div 16), hexDigit (b mod 16)]"

definition escape :: "nat \<Rightarrow> jsstring" where
  "escape cp = concat (map escapeOctet (utf8 cp))"

definition URIError :: thrown where
  "URIError = Error (lit ''URI malformed'')"

fun encodeURIComponent :: "jsstring \<Rightarrow> thrown + jsstring" where
  "encodeURIComponent [] = Inr []"
| "encodeURIComponent (c # cs) =
     (if uriUnescaped c then
        (case encodeURIComponent cs of Inl e \<Rightarrow> Inl e | Inr r \<Rightarrow> Inr (c # r))
      else if \<not> isLeadSurrogate c \<and> \<not> isTrailSurrogate c then
        (case encodeURIComponent cs of Inl e \<Rightarrow> Inl e | Inr r \<Rightarrow> Inr (escape (unat c) @ r))
      else if isTrailSurrogate c then Inl URIError
      else
        (case cs of
           [] \<Rightarrow> Inl URIError
         | d # ds \<Rightarrow>
             if isTrailSurrogate d then
               (case encodeURIComponent ds of
                  Inl e \<Rightarrow> Inl e
                | Inr r \<Rightarrow> Inr (escape (surrogatePair c d) @ r))
             else Inl URIError))"

section \<open>Data model\<close>

text \<open>
  The objects sent to clients. \<open>handleGeocodingRequest\<close> returns
  \<open>{ results: response.data, status: 'success' }\<close>; the handlers build
  \<open>{ status: 'error', message: ... }\<close> and \<open>{ status: 'healthy' }\<close>. A property that the
  object literal does not have is \<open>None\<close>. The upstream data \<open>'a\<close> is passed through
  without being inspected.
\<close>

record 'a GeocodeResponse =
  results :: "'a option"
  status :: jsstring
  message :: "jsstring option"

text \<open>What a handler does besides answering: upstream GETs and \<open>console.error\<close> lines.\<close>

datatype event = AxiosGet jsstring | ConsoleError jsstring thrown

record 'a http_response =
  code :: nat
  body :: "'a GeocodeResponse"

section \<open>Configuration\<close>

text \<open>\<open>process.env.GEOCODING_SERVICE_URL || 'http://localhost:5008'\<close>\<close>

definition GEOCODING_SERVICE_URL :: "jsstring option \<Rightarrow> jsstring" where
  "GEOCODING_SERVICE_URL env =
     (case env of
        None \<Rightarrow> lit ''http://localhost:5008''
      | Some v \<Rightarrow> if v = [] then lit ''http://localhost:5008'' else v)"

section \<open>handleGeocodingRequest\<close>

text \<open>
  The template literal of line 64. \<open>encodeURIComponent\<close> may throw; \<open>k\<close> is tested by
  truthiness and inserted as it is.
\<close>

definition kParam :: "jsstring option \<Rightarrow> jsstring" where
  "kParam k = (case k of None \<Rightarrow> [] | Some kv \<Rightarrow> if truthy k then lit ''&k='' @ kv else [])"

definition buildUrl :: "jsstring option \<Rightarrow> jsstring \<Rightarrow> jsstring option \<Rightarrow> thrown + jsstring" where
  "buildUrl env t k =
     (case encodeURIComponent t of
        Inl e \<Rightarrow> Inl e
      | Inr enc \<Rightarrow> Inr (GEOCODING_SERVICE_URL env @ lit ''/geocoding?text='' @ enc @ kParam k))"

text \<open>
  The \<open>try\<close> block: build the URL, await \<open>axios.get(url)\<close>, wrap \<open>response.data\<close>.
  \<open>axios_get\<close> gives, for a URL, how the promise settles: rejected with a value
  (\<open>Inl\<close>) or resolved with \<open>response.data\<close> (\<open>Inr\<close>).
\<close>

definition tryBlock ::
  "jsstring option \<Rightarrow> (jsstring \<Rightarrow> thrown + 'a) \<Rightarrow> jsstring \<Rightarrow> jsstring option
     \<Rightarrow> event list \<times> (thrown + 'a GeocodeResponse)" where
  "tryBlock env axios_get t k =
     (case buildUrl env t k of
        Inl e \<Rightarrow> ([], Inl e)
      | Inr url \<Rightarrow>
          (case axios_get url of
             Inl e \<Rightarrow> ([AxiosGet url], Inl e)
           | Inr d \<Rightarrow>
               ([AxiosGet url],
                Inr \<lparr>results = Some d, status = lit ''success'', message = None\<rparr>)))"

text \<open>The \<open>catch\<close> block logs the caught value and throws a new Error.\<close>

definition handleGeocodingRequest ::
  "jsstring option \<Rightarrow> (jsstring \<Rightarrow> thrown + 'a) \<Rightarrow> jsstring \<Rightarrow> jsstring option
     \<Rightarrow> event list \<times> (thrown + 'a GeocodeResponse)" where
  "handleGeocodingRequest env axios_get t k =
     (case tryBlock env axios_get t k of
        (evs, Inl e) \<Rightarrow>
          (evs @ [ConsoleError (lit ''Error calling geocoding service:'') e],
           Inl (Error (lit ''Failed to communicate with geocoding service'')))
      | (evs, Inr response) \<Rightarrow> (evs, Inr response))"

section \<open>REST endpoints\<close>

text \<open>
  \<open>POST /geocode\<close> reads two properties of \<open>req.body\<close>, \<open>text\<close> and \<open>k\<close>; either may be
  missing (\<open>None\<close>), and one that is present is a string, the type
  \<open>handleGeocodingRequest\<close> declares for it. \<open>!text\<close> holds for a missing and for an
  empty text. The handler answers with a status code and a JSON body.
\<close>

definition health :: "'r \<Rightarrow> event list \<times> 'a http_response" where
  "health req = ([], \<lparr>code = 200, body = \<lparr>results = None, status = lit ''healthy'', message = None\<rparr>\<rparr>)"

definition geocode_post ::
  "jsstring option \<Rightarrow> (jsstring \<Rightarrow> thrown + 'a) \<Rightarrow> jsstring option \<Rightarrow> jsstring option
     \<Rightarrow> event list \<times> 'a http_response" where
  "geocode_post env axios_get t k =
     (case t of
        None \<Rightarrow>
          ([], \<lparr>code = 400, body = \<lparr>results = None, status = lit ''error'',
                                    message = Some (lit ''Text query is required'')\<rparr>\<rparr>)
      | Some tv \<Rightarrow>
          if \<not> truthy t then
            ([], \<lparr>code = 400, body = \<lparr>results = None, status = lit ''error'',
                                      message = Some (lit ''Text query is required'')\<rparr>\<rparr>)
          else
            (case handleGeocodingRequest env axios_get tv k of
               (evs, Inr response) \<Rightarrow> (evs, \<lparr>code = 200, body = response\<rparr>)
             | (evs, Inl error) \<Rightarrow>
                 (evs, \<lparr>code = 500, body = \<lparr>results = None, status = lit ''error'',
                     message = Some (case error of Error m \<Rightarrow> m
                                     | NotAnError \<Rightarrow> lit ''Internal server error'')\<rparr>\<rparr>)))"

text \<open>The two routes registered on \<open>app\<close>.\<close>

datatype http_request = GET_health | POST_geocode "jsstring option" "jsstring option"

definition app ::
  "jsstring option \<Rightarrow> (jsstring \<Rightarrow> thrown + 'a) \<Rightarrow> http_request
     \<Rightarrow> event list \<times> 'a http_response" where
  "app env axios_get req =
     (case req of
        GET_health \<Rightarrow> health req
      | POST_geocode t k \<Rightarrow> geocode_post env axios_get t k)"

section \<open>Socket.io handler\<close>

text \<open>
  The listener of \<open>geocoding-request\<close>, whose data is declared
  \<open>{ text: string; k?: string }\<close>: what it logs and requests, and the event it emits on
  the same socket (name and payload).
\<close>

definition on_geocoding_request ::
  "jsstring option \<Rightarrow> (jsstring \<Rightarrow> thrown + 'a) \<Rightarrow> jsstring \<Rightarrow> jsstring option
     \<Rightarrow> event list \<times> (jsstring \<times> 'a GeocodeResponse)" where
  "on_geocoding_request env axios_get t k =
     (case handleGeocodingRequest env axios_get t k of
        (evs, Inr response) \<Rightarrow> (evs, (lit ''geocoding-response'', response))
      | (evs, Inl error) \<Rightarrow>
          (evs @ [ConsoleError (lit ''Error handling geocoding request:'') error],
           (lit ''geocoding-response'',
            \<lparr>results = None, status = lit ''error'',
             message = Some (case error of Error m \<Rightarrow> m
                             | NotAnError \<Rightarrow> lit ''Unknown error occurred'')\<rparr>)))"

section \<open>What axios.get resolves with\<close>

text \<open>
  \<open>response.data\<close> is untyped in server.ts: it is whatever \<open>axios.get\<close> resolved
  with, a value parsed from a JSON body or the text of a body left as a string. Whether
  and when \<open>axios.get\<close> rejects or resolves is the library's and stays the parameter
  \<open>axios_get\<close> of the handlers.
\<close>

datatype 'j response_data = Parsed 'j | Raw jsstring

section \<open>Observations\<close>

text \<open>The URLs requested from the upstream service during a run, in order.\<close>

fun upstream_calls :: "event list \<Rightarrow> jsstring list" where
  "upstream_calls [] = []"
| "upstream_calls (AxiosGet url # evs) = url # upstream_calls evs"
| "upstream_calls (ConsoleError l e # evs) = upstream_calls evs"

text \<open>
  The envelope invariant of the data model: with status \<open>success\<close> the object has
  \<open>results\<close> and no \<open>message\<close>, with status \<open>error\<close> it has \<open>message\<close> and no
  \<open>results\<close>.
\<close>

definition envelope_invariant :: "'a GeocodeResponse \<Rightarrow> bool" where
  "envelope_invariant p \<longleftrightarrow>
     (status p = lit ''success'' \<longrightarrow> results p \<noteq> None \<and> message p = None) \<and>
     (status p = lit ''error'' \<longrightarrow> message p \<noteq> None \<and> results p = None)"

section \<open>The runs of handleGeocodingRequest\<close>

lemma buildUrl_Inr_iff:
  "buildUrl env t k = Inr url \<longleftrightarrow>
   (\<exists>enc. encodeURIComponent t = Inr enc \<and>
      url = GEOCODING_SERVICE_URL env @ lit ''/geocoding?text='' @ enc @ kParam k)"
  by (auto simp: buildUrl_def split: sum.splits)

lemma buildUrl_Inl_iff:
  "buildUrl env t k = Inl e \<longleftrightarrow> encodeURIComponent t = Inl e"
  by (auto simp: buildUrl_def split: sum.splits)

lemma handleGeocodingRequest_encode_throws:
  "encodeURIComponent t = Inl e \<Longrightarrow>
   handleGeocodingRequest env axios_get t k =
     ([ConsoleError (lit ''Error calling geocoding service:'') e],
      Inl (Error (lit ''Failed to communicate with geocoding service'')))"
  by (simp add: handleGeocodingRequest_def tryBlock_def buildUrl_def)

lemma handleGeocodingRequest_rejected:
  "buildUrl env t k = Inr url \<Longrightarrow> axios_get url = Inl e \<Longrightarrow>
   handleGeocodingRequest env axios_get t k =
     ([AxiosGet url, ConsoleError (lit ''Error calling geocoding service:'') e],
      Inl (Error (lit ''Failed to communicate with geocoding service'')))"
  by (simp add: handleGeocodingRequest_def tryBlock_def)

lemma handleGeocodingRequest_resolved:
  "buildUrl env t k = Inr url \<Longrightarrow> axios_get url = Inr d \<Longrightarrow>
   handleGeocodingRequest env axios_get t k =
     ([AxiosGet url], Inr \<lparr>results = Some d, status = lit ''success'', message = None\<rparr>)"
  by (simp add: handleGeocodingRequest_def tryBlock_def)

text \<open>
  Every run is one of three: \<open>encodeURIComponent\<close> throws before any request is sent,
  the request is sent and rejected, or it is sent and resolved.
\<close>

lemma handleGeocodingRequest_cases:
  obtains
    (encode_throws) e where "encodeURIComponent t = Inl e"
      "handleGeocodingRequest env axios_get t k =
         ([ConsoleError (lit ''Error calling geocoding service:'') e],
          Inl (Error (lit ''Failed to communicate with geocoding service'')))"
  | (rejected) url e where "buildUrl env t k = Inr url" "axios_get url = Inl e"
      "handleGeocodingRequest env axios_get t k =
         ([AxiosGet url, ConsoleError (lit ''Error calling geocoding service:'') e],
          Inl (Error (lit ''Failed to communicate with geocoding service'')))"
  | (resolved) url d where "buildUrl env t k = Inr url" "axios_get url = Inr d"
      "handleGeocodingRequest env axios_get t k =
         ([AxiosGet url], Inr \<lparr>results = Some d, status = lit ''success'', message = None\<rparr>)"
proof (cases "buildUrl env t k")
  case (Inl e)
  then have a: "encodeURIComponent t = Inl e" by (simp add: buildUrl_Inl_iff)
  show ?thesis
    by (rule encode_throws [OF a handleGeocodingRequest_encode_throws [OF a]])
next
  case u: (Inr url)
  show ?thesis
  proof (cases "axios_get url")
    case (Inl e)
    show ?thesis
      by (rule rejected
            [OF u Inl handleGeocodingRequest_rejected [where axios_get = axios_get, OF u Inl]])
  next
    case (Inr d)
    show ?thesis
      by (rule resolved
            [OF u Inr handleGeocodingRequest_resolved [where axios_get = axios_get, OF u Inr]])
  qed
qed

section \<open>Evaluation and helper facts\<close>

text \<open>The definitions unfolded to run the model on a concrete request.\<close>

lemmas url_eval =
  buildUrl_def kParam_def GEOCODING_SERVICE_URL_def lit_def uriUnescaped_def
  isLeadSurrogate_def isTrailSurrogate_def escape_def utf8_def escapeOctet_def hexDigit_def
  surrogatePair_def

lemmas run_eval =
  app_def geocode_post_def on_geocoding_request_def handleGeocodingRequest_def tryBlock_def

lemma lit_status_distinct:
  "lit ''success'' \<noteq> lit ''error''" "lit ''error'' \<noteq> lit ''success''"
  "lit ''healthy'' \<noteq> lit ''success''" "lit ''healthy'' \<noteq> lit ''error''"
  by (simp_all add: lit_def)

lemma geocode_post_truthy:
  "t \<noteq> [] \<Longrightarrow>
   geocode_post env axios_get (Some t) k =
     (case handleGeocodingRequest env axios_get t k of
        (evs, Inr response) \<Rightarrow> (evs, \<lparr>code = 200, body = response\<rparr>)
      | (evs, Inl error) \<Rightarrow>
          (evs, \<lparr>code = 500, body = \<lparr>results = None, status = lit ''error'',
              message = Some (case error of Error m \<Rightarrow> m
                              | NotAnError \<Rightarrow> lit ''Internal server error'')\<rparr>\<rparr>))"
  by (simp add: geocode_post_def)

section \<open>Both transports on a successful upstream call\<close>

text \<open>
  Claim C4. For a non-empty \<open>text\<close>, when the upstream call for the URL built from
  \<open>(text, k)\<close> resolves with data \<open>d\<close>, the single run of \<open>handleGeocodingRequest\<close>
  returns \<open>{ results: d, status: 'success' }\<close>, and \<open>POST /geocode\<close> (with status 200)
  and the \<open>geocoding-request\<close> listener deliver exactly this object after exactly the
  same upstream request.
\<close>

theorem transports_same_success_envelope:
  assumes "t \<noteq> []" and "buildUrl env t k = Inr url" and "axios_get url = Inr d"
  shows "handleGeocodingRequest env axios_get t k =
           ([AxiosGet url], Inr \<lparr>results = Some d, status = lit ''success'', message = None\<rparr>)
         \<and> app env axios_get (POST_geocode (Some t) k) =
           ([AxiosGet url],
            \<lparr>code = 200, body = \<lparr>results = Some d, status = lit ''success'', message = None\<rparr>\<rparr>)
         \<and> on_geocoding_request env axios_get t k =
           ([AxiosGet url],
            (lit ''geocoding-response'',
             \<lparr>results = Some d, status = lit ''success'', message = None\<rparr>))"
proof -
  have h: "handleGeocodingRequest env axios_get t k =
           ([AxiosGet url], Inr \<lparr>results = Some d, status = lit ''success'', message = None\<rparr>)"
    using assms(2,3) by (rule handleGeocodingRequest_resolved [where axios_get = axios_get])
  have p: "app env axios_get (POST_geocode (Some t) k) =
           ([AxiosGet url],
            \<lparr>code = 200, body = \<lparr>results = Some d, status = lit ''success'', message = None\<rparr>\<rparr>)"
    using assms(1) by (simp add: app_def geocode_post_truthy h)
  have s: "on_geocoding_request env axios_get t k =
           ([AxiosGet url],
            (lit ''geocoding-response'',
             \<lparr>results = Some d, status = lit ''success'', message = None\<rparr>))"
    by (simp add: on_geocoding_request_def h)
  from h p s show ?thesis by (intro conjI)
qed

theorem transports_same_success_envelope_witness:
  "app None (\<lambda>u. Inr ''Paris, France'') (POST_geocode (Some (lit ''Paris'')) (Some (lit ''3''))) =
     ([AxiosGet (lit ''http://localhost:5008/geocoding?text=Paris&k=3'')],
      \<lparr>code = 200,
       body = \<lparr>results = Some ''Paris, France'', status = lit ''success'', message = None\<rparr>\<rparr>)
   \<and> on_geocoding_request None (\<lambda>u. Inr ''Paris, France'') (lit ''Paris'') (Some (lit ''3'')) =
     ([AxiosGet (lit ''http://localhost:5008/geocoding?text=Paris&k=3'')],
      (lit ''geocoding-response'',
       \<lparr>results = Some ''Paris, France'', status = lit ''success'', message = None\<rparr>))"
proof -
  have t: "lit ''Paris'' \<noteq> []" by (simp add: lit_def)
  have u: "buildUrl None (lit ''Paris'') (Some (lit ''3'')) =
             Inr (lit ''http://localhost:5008/geocoding?text=Paris&k=3'')"
    by (simp add: url_eval)
  have a: "(\<lambda>u::jsstring. Inr ''Paris, France'' :: thrown + string)
             (lit ''http://localhost:5008/geocoding?text=Paris&k=3'') = Inr ''Paris, France''"
    by simp
  from transports_same_success_envelope [where axios_get = "\<lambda>u. Inr ''Paris, France''", OF t u a]
  show ?thesis by simp
qed


section \<open>Both transports on a failed upstream call\<close>

text \<open>A request for \<open>u\<close> appears in a run exactly when \<open>u\<close> is the URL that was built.\<close>

lemma upstream_call_sent:
  "AxiosGet u \<in> set (fst (handleGeocodingRequest env axios_get t k)) \<longleftrightarrow>
   buildUrl env t k = Inr u"
  by (cases rule: handleGeocodingRequest_cases [of t env axios_get k])
     (auto simp: buildUrl_def)

lemma geocode_post_sent:
  assumes a: "AxiosGet u \<in> set (fst (geocode_post env axios_get topt k))"
  shows "\<exists>t. topt = Some t \<and> t \<noteq> [] \<and> buildUrl env t k = Inr u"
proof (cases topt)
  case None
  with a show ?thesis by (simp add: geocode_post_def)
next
  case (Some t)
  show ?thesis
  proof (cases "t = []")
    case True
    with a Some show ?thesis by (simp add: geocode_post_def)
  next
    case False
    with a Some have "AxiosGet u \<in> set (fst (handleGeocodingRequest env axios_get t k))"
      by (simp add: geocode_post_truthy split: prod.splits sum.splits)
    then have "buildUrl env t k = Inr u" by (simp add: upstream_call_sent)
    with Some False show ?thesis by simp
  qed
qed

lemma on_geocoding_request_sent:
  "AxiosGet u \<in> set (fst (on_geocoding_request env axios_get t k)) \<Longrightarrow>
   buildUrl env t k = Inr u"
proof -
  assume "AxiosGet u \<in> set (fst (on_geocoding_request env axios_get t k))"
  then have "AxiosGet u \<in> set (fst (handleGeocodingRequest env axios_get t k))"
    by (auto simp: on_geocoding_request_def split: prod.splits sum.splits)
  then show ?thesis by (simp add: upstream_call_sent)
qed

text \<open>
  Claim C3. Whenever a run of either transport has sent a request upstream and that
  request failed (\<open>axios.get\<close> rejected, whatever the reason \<open>e\<close>), the payload given to
  the caller is \<open>{ status: 'error', message: 'Failed to communicate with geocoding
  service' }\<close>: the same object over HTTP and over the socket.
\<close>

theorem upstream_failure_same_message:
  assumes "axios_get u = Inl e"
  shows "(AxiosGet u \<in> set (fst (app env axios_get (POST_geocode topt k))) \<longrightarrow>
            body (snd (app env axios_get (POST_geocode topt k))) =
              \<lparr>results = None, status = lit ''error'',
               message = Some (lit ''Failed to communicate with geocoding service'')\<rparr>)
         \<and> (AxiosGet u \<in> set (fst (on_geocoding_request env axios_get t k)) \<longrightarrow>
            snd (on_geocoding_request env axios_get t k) =
              (lit ''geocoding-response'',
               \<lparr>results = None, status = lit ''error'',
                message = Some (lit ''Failed to communicate with geocoding service'')\<rparr>))"
proof (intro conjI impI)
  assume "AxiosGet u \<in> set (fst (app env axios_get (POST_geocode topt k)))"
  then have "AxiosGet u \<in> set (fst (geocode_post env axios_get topt k))"
    by (simp add: app_def)
  then obtain tv where tv: "topt = Some tv" "tv \<noteq> []" "buildUrl env tv k = Inr u"
    using geocode_post_sent by blast
  have "handleGeocodingRequest env axios_get tv k =
     ([AxiosGet u, ConsoleError (lit ''Error calling geocoding service:'') e],
      Inl (Error (lit ''Failed to communicate with geocoding service'')))"
    using tv(3) assms by (rule handleGeocodingRequest_rejected [where axios_get = axios_get])
  with tv show "body (snd (app env axios_get (POST_geocode topt k))) =
              \<lparr>results = None, status = lit ''error'',
               message = Some (lit ''Failed to communicate with geocoding service'')\<rparr>"
    by (simp add: app_def geocode_post_truthy)
next
  assume "AxiosGet u \<in> set (fst (on_geocoding_request env axios_get t k))"
  then have "buildUrl env t k = Inr u" by (rule on_geocoding_request_sent)
  then have "handleGeocodingRequest env axios_get t k =
     ([AxiosGet u, ConsoleError (lit ''Error calling geocoding service:'') e],
      Inl (Error (lit ''Failed to communicate with geocoding service'')))"
    using assms by (rule handleGeocodingRequest_rejected [where axios_get = axios_get])
  then show "snd (on_geocoding_request env axios_get t k) =
              (lit ''geocoding-response'',
               \<lparr>results = None, status = lit ''error'',
                message = Some (lit ''Failed to communicate with geocoding service'')\<rparr>)"
    by (simp add: on_geocoding_request_def)
qed


theorem upstream_failure_same_message_witness:
  "AxiosGet (lit ''http://localhost:5008/geocoding?text=Paris'')
     \<in> set (fst (app None (\<lambda>u. Inl (Error (lit ''connect ECONNREFUSED'')) :: thrown + nat)
                    (POST_geocode (Some (lit ''Paris'')) None)))
   \<and> body (snd (app None (\<lambda>u. Inl (Error (lit ''connect ECONNREFUSED'')) :: thrown + nat)
                    (POST_geocode (Some (lit ''Paris'')) None))) =
       \<lparr>results = None, status = lit ''error'',
        message = Some (lit ''Failed to communicate with geocoding service'')\<rparr>
   \<and> AxiosGet (lit ''http://localhost:5008/geocoding?text=Paris'')
     \<in> set (fst (on_geocoding_request None
                    (\<lambda>u. Inl (Error (lit ''connect ECONNREFUSED'')) :: thrown + nat)
                    (lit ''Paris'') None))
   \<and> snd (on_geocoding_request None
            (\<lambda>u. Inl (Error (lit ''connect ECONNREFUSED'')) :: thrown + nat)
            (lit ''Paris'') None) =
       (lit ''geocoding-response'',
        \<lparr>results = None, status = lit ''error'',
         message = Some (lit ''Failed to communicate with geocoding service'')\<rparr>)"
proof -
  let ?f = "\<lambda>u::jsstring. Inl (Error (lit ''connect ECONNREFUSED'')) :: thrown + nat"
  let ?u = "lit ''http://localhost:5008/geocoding?text=Paris''"
  have r: "?f ?u = Inl (Error (lit ''connect ECONNREFUSED''))" by simp
  have h: "AxiosGet ?u \<in> set (fst (app None ?f (POST_geocode (Some (lit ''Paris'')) None)))"
    by (simp add: run_eval url_eval)
  have s: "AxiosGet ?u \<in> set (fst (on_geocoding_request None ?f (lit ''Paris'') None))"
    by (simp add: run_eval url_eval)
  from upstream_failure_same_message
         [where axios_get = ?f and env = None and topt = "Some (lit ''Paris'')"
            and t = "lit ''Paris''" and k = None, OF r] h s
  show ?thesis by blast
qed

section \<open>The envelope invariant\<close>

text \<open>
  Claim C7. Every body sent by the HTTP routes and every payload emitted as
  \<open>geocoding-response\<close> satisfies the envelope invariant: status \<open>success\<close> comes with
  \<open>results\<close> and without \<open>message\<close>, status \<open>error\<close> comes with \<open>message\<close> and
  without \<open>results\<close>.
\<close>

theorem envelope_invariant_on_both_transports:
  "envelope_invariant (body (snd (app env axios_get req)))
   \<and> envelope_invariant (snd (snd (on_geocoding_request env axios_get t k)))"
proof
  show "envelope_invariant (body (snd (app env axios_get req)))"
  proof (cases req)
    case GET_health
    then show ?thesis
      by (simp add: app_def health_def envelope_invariant_def lit_status_distinct)
  next
    case (POST_geocode topt k')
    show ?thesis
    proof (cases "truthy topt")
      case False
      then have "topt = None \<or> topt = Some []" by (cases topt) auto
      with POST_geocode show ?thesis
        by (auto simp: app_def geocode_post_def envelope_invariant_def lit_status_distinct)
    next
      case True
      then obtain tv where tv: "topt = Some tv" "tv \<noteq> []" by (cases topt) auto
      show ?thesis
        by (cases rule: handleGeocodingRequest_cases [of tv env axios_get k'])
           (simp_all add: POST_geocode tv app_def geocode_post_truthy envelope_invariant_def
              lit_status_distinct)
    qed
  qed
next
  show "envelope_invariant (snd (snd (on_geocoding_request env axios_get t k)))"
    by (cases rule: handleGeocodingRequest_cases [of t env axios_get k])
       (simp_all add: on_geocoding_request_def envelope_invariant_def lit_status_distinct)
qed

theorem envelope_invariant_on_both_transports_witness:
  "status (body (snd (app None (\<lambda>u. Inr (7::nat)) (POST_geocode (Some (lit ''Oslo'')) None))))
     = lit ''success''
   \<and> results (body (snd (app None (\<lambda>u. Inr (7::nat)) (POST_geocode (Some (lit ''Oslo'')) None))))
     \<noteq> None
   \<and> message (body (snd (app None (\<lambda>u. Inr (7::nat)) (POST_geocode (Some (lit ''Oslo'')) None))))
     = None
   \<and> status (snd (snd (on_geocoding_request None (\<lambda>u. Inl NotAnError :: thrown + nat)
                          (lit ''Oslo'') None))) = lit ''error''
   \<and> message (snd (snd (on_geocoding_request None (\<lambda>u. Inl NotAnError :: thrown + nat)
                          (lit ''Oslo'') None))) \<noteq> None
   \<and> results (snd (snd (on_geocoding_request None (\<lambda>u. Inl NotAnError :: thrown + nat)
                          (lit ''Oslo'') None))) = None"
proof -
  have a: "status (body (snd (app None (\<lambda>u. Inr (7::nat))
             (POST_geocode (Some (lit ''Oslo'')) None)))) = lit ''success''"
    by (simp add: run_eval url_eval)
  have b: "status (snd (snd (on_geocoding_request None (\<lambda>u. Inl NotAnError :: thrown + nat)
                          (lit ''Oslo'') None))) = lit ''error''"
    by (simp add: run_eval url_eval)
  from envelope_invariant_on_both_transports
         [of None "\<lambda>u. Inr (7::nat)" "POST_geocode (Some (lit ''Oslo'')) None"]
       envelope_invariant_on_both_transports
         [where env = None and axios_get = "\<lambda>u. Inl NotAnError :: thrown + nat"
            and t = "lit ''Oslo''" and k = None]
       a b
  show ?thesis unfolding envelope_invariant_def by blast
qed


section \<open>What handleGeocodingRequest does on an upstream failure\<close>

text \<open>
  Counterexample to claim C1 as stated: with the upstream service refusing the
  connection, \<open>handleGeocodingRequest\<close> does not return an error envelope, it throws.
\<close>

theorem handleGeocodingRequest_throws_counterexample:
  "snd (handleGeocodingRequest None
          (\<lambda>u. Inl (Error (lit ''connect ECONNREFUSED'')) :: thrown + nat) (lit ''Paris'') None)
     = Inl (Error (lit ''Failed to communicate with geocoding service''))
   \<and> snd (handleGeocodingRequest None
          (\<lambda>u. Inl (Error (lit ''connect ECONNREFUSED'')) :: thrown + nat) (lit ''Paris'') None)
     \<noteq> Inr \<lparr>results = None, status = lit ''error'',
              message = Some (lit ''Failed to communicate with geocoding service'')\<rparr>"
  by (simp add: run_eval url_eval)

text \<open>
  Claim C1, as the code has it. \<open>handleGeocodingRequest\<close> always settles, in one of two
  ways: when the upstream call resolves it returns
  \<open>{ results: <upstream data>, status: 'success' }\<close>; when the upstream call fails it
  throws an Error whose message is \<open>Failed to communicate with geocoding service\<close>.
  Whatever it returns has status \<open>success\<close>, and whatever it throws is that Error.
\<close>

theorem handleGeocodingRequest_returns_or_throws:
  "(buildUrl env t k = Inr url \<and> axios_get url = Inr d \<longrightarrow>
      snd (handleGeocodingRequest env axios_get t k) =
        Inr \<lparr>results = Some d, status = lit ''success'', message = None\<rparr>)
   \<and> (buildUrl env t k = Inr url \<and> axios_get url = Inl e \<longrightarrow>
      snd (handleGeocodingRequest env axios_get t k) =
        Inl (Error (lit ''Failed to communicate with geocoding service'')))
   \<and> (snd (handleGeocodingRequest env axios_get t k) = Inr r \<longrightarrow>
      status r = lit ''success'' \<and> results r \<noteq> None \<and> message r = None)
   \<and> (snd (handleGeocodingRequest env axios_get t k) = Inl x \<longrightarrow>
      x = Error (lit ''Failed to communicate with geocoding service''))"
proof (intro conjI impI)
  assume "buildUrl env t k = Inr url \<and> axios_get url = Inr d"
  then show "snd (handleGeocodingRequest env axios_get t k) =
        Inr \<lparr>results = Some d, status = lit ''success'', message = None\<rparr>"
    by (simp add: handleGeocodingRequest_resolved [where axios_get = axios_get])
next
  assume "buildUrl env t k = Inr url \<and> axios_get url = Inl e"
  then show "snd (handleGeocodingRequest env axios_get t k) =
        Inl (Error (lit ''Failed to communicate with geocoding service''))"
    by (simp add: handleGeocodingRequest_rejected [where axios_get = axios_get])
next
  assume r: "snd (handleGeocodingRequest env axios_get t k) = Inr r"
  from r show "status r = lit ''success''"
    by (cases rule: handleGeocodingRequest_cases [of t env axios_get k]) auto
  from r show "results r \<noteq> None"
    by (cases rule: handleGeocodingRequest_cases [of t env axios_get k]) auto
  from r show "message r = None"
    by (cases rule: handleGeocodingRequest_cases [of t env axios_get k]) auto
next
  assume "snd (handleGeocodingRequest env axios_get t k) = Inl x"
  then show "x = Error (lit ''Failed to communicate with geocoding service'')"
    by (cases rule: handleGeocodingRequest_cases [of t env axios_get k]) auto
qed

theorem handleGeocodingRequest_returns_or_throws_witness:
  "snd (handleGeocodingRequest None (\<lambda>u. Inr (1::nat)) (lit ''Rome'') None) =
     Inr \<lparr>results = Some 1, status = lit ''success'', message = None\<rparr>
   \<and> snd (handleGeocodingRequest None
            (\<lambda>u. if u = lit ''http://localhost:5008/geocoding?text=Rome''
                 then Inl (Error (lit ''Request failed with status code 500''))
                 else Inr (1::nat))
            (lit ''Rome'') None) =
     Inl (Error (lit ''Failed to communicate with geocoding service''))"
proof -
  let ?u = "lit ''http://localhost:5008/geocoding?text=Rome''"
  let ?g = "\<lambda>u. if u = ?u then Inl (Error (lit ''Request failed with status code 500''))
                else Inr (1::nat)"
  have u: "buildUrl None (lit ''Rome'') None = Inr ?u" by (simp add: url_eval)
  have a: "(\<lambda>u::jsstring. Inr (1::nat) :: thrown + nat) ?u = Inr 1" by simp
  have b: "?g ?u = Inl (Error (lit ''Request failed with status code 500''))" by simp
  from handleGeocodingRequest_returns_or_throws
         [where axios_get = "\<lambda>u. Inr (1::nat)" and env = None and t = "lit ''Rome''"
            and k = None and url = ?u and d = 1] u a
  have 1: "snd (handleGeocodingRequest None (\<lambda>u. Inr (1::nat)) (lit ''Rome'') None) =
     Inr \<lparr>results = Some 1, status = lit ''success'', message = None\<rparr>"
    by blast
  from handleGeocodingRequest_returns_or_throws
         [where axios_get = ?g and env = None and t = "lit ''Rome''"
            and k = None and url = ?u
            and e = "Error (lit ''Request failed with status code 500'')"] u b
  have 2: "snd (handleGeocodingRequest None ?g (lit ''Rome'') None) =
     Inl (Error (lit ''Failed to communicate with geocoding service''))"
    by blast
  from 1 2 show ?thesis by (rule conjI)
qed

section \<open>The status code of POST /geocode on an upstream failure\<close>

text \<open>
  Counterexample to claim C2 as stated: with a non-empty text and the upstream service
  refusing the connection, \<open>POST /geocode\<close> answers 500, not 200.
\<close>

theorem geocode_post_upstream_failure_counterexample:
  "snd (app None (\<lambda>u. Inl (Error (lit ''connect ECONNREFUSED'')) :: thrown + nat)
          (POST_geocode (Some (lit ''Paris'')) None)) =
     \<lparr>code = 500,
      body = \<lparr>results = None, status = lit ''error'',
              message = Some (lit ''Failed to communicate with geocoding service'')\<rparr>\<rparr>
   \<and> code (snd (app None (\<lambda>u. Inl (Error (lit ''connect ECONNREFUSED'')) :: thrown + nat)
          (POST_geocode (Some (lit ''Paris'')) None))) \<noteq> 200"
  by (simp add: run_eval url_eval)

text \<open>
  Claim C2, as the code has it. For a non-empty \<open>text\<close> whose upstream call fails,
  \<open>POST /geocode\<close> answers 500 with
  \<open>{ status: 'error', message: 'Failed to communicate with geocoding service' }\<close>.
  The status is 500 exactly when \<open>handleGeocodingRequest\<close> throws and 200 exactly when
  it returns.
\<close>

theorem geocode_post_upstream_failure_500:
  assumes "t \<noteq> []"
  shows "(buildUrl env t k = Inr url \<and> axios_get url = Inl e \<longrightarrow>
            snd (app env axios_get (POST_geocode (Some t) k)) =
              \<lparr>code = 500,
               body = \<lparr>results = None, status = lit ''error'',
                 message = Some (lit ''Failed to communicate with geocoding service'')\<rparr>\<rparr>)
         \<and> (code (snd (app env axios_get (POST_geocode (Some t) k))) = 500 \<longleftrightarrow>
              (\<exists>x. snd (handleGeocodingRequest env axios_get t k) = Inl x))
         \<and> (code (snd (app env axios_get (POST_geocode (Some t) k))) = 200 \<longleftrightarrow>
              (\<exists>r. snd (handleGeocodingRequest env axios_get t k) = Inr r))"
proof (intro conjI impI)
  assume "buildUrl env t k = Inr url \<and> axios_get url = Inl e"
  then have "handleGeocodingRequest env axios_get t k =
     ([AxiosGet url, ConsoleError (lit ''Error calling geocoding service:'') e],
      Inl (Error (lit ''Failed to communicate with geocoding service'')))"
    by (simp add: handleGeocodingRequest_rejected [where axios_get = axios_get])
  with assms show "snd (app env axios_get (POST_geocode (Some t) k)) =
              \<lparr>code = 500,
               body = \<lparr>results = None, status = lit ''error'',
                 message = Some (lit ''Failed to communicate with geocoding service'')\<rparr>\<rparr>"
    by (simp add: app_def geocode_post_truthy)
next
  from assms
  show "code (snd (app env axios_get (POST_geocode (Some t) k))) = 500 \<longleftrightarrow>
              (\<exists>x. snd (handleGeocodingRequest env axios_get t k) = Inl x)"
    by (cases rule: handleGeocodingRequest_cases [of t env axios_get k])
       (simp_all add: app_def geocode_post_truthy)
next
  from assms
  show "code (snd (app env axios_get (POST_geocode (Some t) k))) = 200 \<longleftrightarrow>
              (\<exists>r. snd (handleGeocodingRequest env axios_get t k) = Inr r)"
    by (cases rule: handleGeocodingRequest_cases [of t env axios_get k])
       (simp_all add: app_def geocode_post_truthy)
qed

theorem geocode_post_upstream_failure_500_witness:
  "snd (app None (\<lambda>u. Inl (Error (lit ''timeout of 1000ms exceeded'')) :: thrown + nat)
          (POST_geocode (Some (lit ''Oslo'')) (Some (lit ''2'')))) =
     \<lparr>code = 500,
      body = \<lparr>results = None, status = lit ''error'',
              message = Some (lit ''Failed to communicate with geocoding service'')\<rparr>\<rparr>"
proof -
  let ?f = "\<lambda>u::jsstring. Inl (Error (lit ''timeout of 1000ms exceeded'')) :: thrown + nat"
  let ?u = "lit ''http://localhost:5008/geocoding?text=Oslo&k=2''"
  have t: "lit ''Oslo'' \<noteq> []" by (simp add: lit_def)
  have u: "buildUrl None (lit ''Oslo'') (Some (lit ''2'')) = Inr ?u" by (simp add: url_eval)
  have a: "?f ?u = Inl (Error (lit ''timeout of 1000ms exceeded''))" by simp
  from geocode_post_upstream_failure_500
         [where axios_get = ?f and env = None and k = "Some (lit ''2'')" and url = ?u
            and e = "Error (lit ''timeout of 1000ms exceeded'')", OF t] u a
  show ?thesis by blast
qed

section \<open>The characters encodeURIComponent produces\<close>

text \<open>
  An encoded text consists of unescaped characters and percent signs only, so it cannot
  open a second query parameter.
\<close>

lemma hexDigit_unescaped:
  assumes "n < 16"
  shows "uriUnescaped (hexDigit n)"
proof -
  from assms have "n \<in> set [0..<16]" by simp
  then show ?thesis
    by (auto simp: upt_rec hexDigit_def uriUnescaped_def)
qed

lemma utf8_octets:
  assumes "cp < 0x110000" and "b \<in> set (utf8 cp)"
  shows "b < 256"
  using assms by (auto simp: utf8_def split: if_splits)

lemma escapeOctet_chars:
  assumes "b < 256" and "c \<in> set (escapeOctet b)"
  shows "uriUnescaped c \<or> c = 0x25"
proof -
  from assms(1) have "b div 16 < 16" and "b mod 16 < 16" by simp_all
  then have "uriUnescaped (hexDigit (b div 16))" and "uriUnescaped (hexDigit (b mod 16))"
    by (simp_all add: hexDigit_unescaped)
  with assms(2) show ?thesis by (auto simp: escapeOctet_def)
qed

lemma escape_chars:
  assumes "cp < 0x110000" and "c \<in> set (escape cp)"
  shows "uriUnescaped c \<or> c = 0x25"
proof -
  from assms(2) obtain b where "b \<in> set (utf8 cp)" and "c \<in> set (escapeOctet b)"
    by (auto simp: escape_def)
  with assms(1) show ?thesis using utf8_octets escapeOctet_chars by blast
qed

lemma surrogatePair_bound:
  assumes "isLeadSurrogate c" and "isTrailSurrogate d"
  shows "surrogatePair c d < 0x110000"
proof -
  from assms(1) have "unat c \<le> 0xDBFF" by (simp add: isLeadSurrogate_def word_le_nat_alt)
  moreover from assms(2) have "unat d \<le> 0xDFFF"
    by (simp add: isTrailSurrogate_def word_le_nat_alt)
  ultimately show ?thesis by (simp add: surrogatePair_def)
qed

lemma code_unit_bound: "unat (c :: 16 word) < 0x110000"
proof -
  have "unat c < 2 ^ 16" using unsigned_less [of c, where ?'a = nat] by simp
  then show ?thesis by simp
qed

lemma encodeURIComponent_chars:
  "encodeURIComponent t = Inr enc \<Longrightarrow> c \<in> set enc \<Longrightarrow> uriUnescaped c \<or> c = 0x25"
proof (induction t arbitrary: enc rule: encodeURIComponent.induct)
  case 1
  then show ?case by simp
next
  case (2 x xs)
  show ?case
  proof (cases "uriUnescaped x")
    case True
    with "2.prems" obtain r where r: "encodeURIComponent xs = Inr r" "enc = x # r"
      by (auto split: sum.splits)
    with "2.prems"(2) "2.IH"(1) [OF True r(1)] True show ?thesis by auto
  next
    case False
    show ?thesis
    proof (cases "\<not> isLeadSurrogate x \<and> \<not> isTrailSurrogate x")
      case plain: True
      with False "2.prems" obtain r where
        r: "encodeURIComponent xs = Inr r" "enc = escape (unat x) @ r"
        by (auto split: sum.splits)
      with "2.prems"(2) "2.IH"(2) [OF False plain r(1)] escape_chars [OF code_unit_bound]
      show ?thesis by auto
    next
      case surr: False
      with False "2.prems" obtain d ds r where
        d: "\<not> isTrailSurrogate x" "xs = d # ds" "isTrailSurrogate d"
           "encodeURIComponent ds = Inr r" "enc = escape (surrogatePair x d) @ r"
        by (auto split: sum.splits list.splits if_splits)
      from surr d(1) have lead: "isLeadSurrogate x" by simp
      from "2.prems"(2) d(5)
        "2.IH"(3) [OF False surr d(1) d(2) d(3) d(4)]
        escape_chars [OF surrogatePair_bound [OF lead d(3)]]
      show ?thesis by auto
    qed
  qed
qed



section \<open>The health endpoint\<close>

text \<open>
  Claim C9. \<open>GET /health\<close> answers 200 with \<open>{ status: 'healthy' }\<close> whatever the
  configuration and whatever the upstream service would do (\<open>axios_get\<close> is arbitrary),
  and it sends no request upstream.
\<close>

theorem health_always_200:
  "app env axios_get GET_health =
     ([], \<lparr>code = 200, body = \<lparr>results = None, status = lit ''healthy'', message = None\<rparr>\<rparr>)
   \<and> upstream_calls (fst (app env axios_get GET_health)) = []"
  by (simp add: app_def health_def)

section \<open>Validation of POST /geocode\<close>

text \<open>
  Claim C6. When \<open>text\<close> is missing from the body or is the empty string,
  \<open>POST /geocode\<close> answers 400 with
  \<open>{ status: 'error', message: 'Text query is required' }\<close>, and the run contains no event
  at all: \<open>handleGeocodingRequest\<close> is not reached and nothing is requested upstream.
\<close>

theorem geocode_post_text_required:
  "t = None \<or> t = Some [] \<Longrightarrow>
   app env axios_get (POST_geocode t k) =
     ([], \<lparr>code = 400, body = \<lparr>results = None, status = lit ''error'',
                               message = Some (lit ''Text query is required'')\<rparr>\<rparr>)
   \<and> upstream_calls (fst (app env axios_get (POST_geocode t k))) = []"
  by (auto simp: app_def geocode_post_def)

theorem geocode_post_text_required_witness:
  "app None (\<lambda>u. Inr (0::nat)) (POST_geocode (Some []) (Some (lit ''5''))) =
     ([], \<lparr>code = 400, body = \<lparr>results = None, status = lit ''error'',
                               message = Some (lit ''Text query is required'')\<rparr>\<rparr>)
   \<and> upstream_calls
         (fst (app None (\<lambda>u. Inr (0::nat)) (POST_geocode (Some []) (Some (lit ''5''))))) = []"
  using geocode_post_text_required [of "Some []" None "\<lambda>u. Inr (0::nat)" "Some (lit ''5'')"]
  by simp

section \<open>The upstream URL\<close>

text \<open>
  Claim C10. An empty \<open>k\<close> is treated as a missing one: the URL built with
  \<open>k = ''\<close> is the URL built without \<open>k\<close>, which ends with the encoded text and has no
  \<open>k\<close> parameter, and the whole run of \<open>handleGeocodingRequest\<close> is the same.
\<close>

theorem empty_k_same_as_omitted:
  "buildUrl env t (Some []) = buildUrl env t None
   \<and> buildUrl env t None =
       (case encodeURIComponent t of
          Inl e \<Rightarrow> Inl e
        | Inr enc \<Rightarrow> Inr (GEOCODING_SERVICE_URL env @ lit ''/geocoding?text='' @ enc))
   \<and> handleGeocodingRequest env axios_get t (Some []) =
       handleGeocodingRequest env axios_get t None"
  by (simp add: handleGeocodingRequest_def tryBlock_def buildUrl_def kParam_def split: sum.splits)

text \<open>
  Counterexample to claim C8 as stated: \<open>k\<close> supplied as the empty string is not
  appended as a \<open>k\<close> parameter.
\<close>

theorem k_supplied_empty_counterexample:
  "buildUrl None (lit ''Paris'') (Some []) = Inr (lit ''http://localhost:5008/geocoding?text=Paris'')
   \<and> buildUrl None (lit ''Paris'') (Some []) \<noteq>
       Inr (lit ''http://localhost:5008/geocoding?text=Paris'' @ lit ''&k='' @ [])"
  by (simp add: url_eval)

text \<open>
  Claim C8, as the code has it. \<open>handleGeocodingRequest\<close> sends at most one GET, to the
  configured base URL followed by \<open>/geocoding?text=\<close> and the text encoded by
  \<open>encodeURIComponent\<close> (no request at all when the encoder throws). A \<open>k\<close> that is
  supplied and not empty is appended as it is, after \<open>&k=\<close>; when \<open>k\<close> is missing or
  empty nothing follows the encoded text, which itself contains neither \<open>&\<close> nor
  \<open>=\<close>, so the query string has no \<open>k\<close> parameter.
\<close>

theorem upstream_url:
  "upstream_calls (fst (handleGeocodingRequest env axios_get t k)) =
     (case encodeURIComponent t of
        Inl e \<Rightarrow> []
      | Inr enc \<Rightarrow>
          [GEOCODING_SERVICE_URL env @ lit ''/geocoding?text='' @ enc @
             (case k of
                None \<Rightarrow> []
              | Some kv \<Rightarrow> if kv = [] then [] else lit ''&k='' @ kv)])
   \<and> (encodeURIComponent t = Inr enc \<longrightarrow>
        of_char CHR ''&'' \<notin> set enc \<and> of_char CHR ''='' \<notin> set enc)"
proof
  show "upstream_calls (fst (handleGeocodingRequest env axios_get t k)) =
     (case encodeURIComponent t of
        Inl e \<Rightarrow> []
      | Inr enc \<Rightarrow>
          [GEOCODING_SERVICE_URL env @ lit ''/geocoding?text='' @ enc @
             (case k of
                None \<Rightarrow> []
              | Some kv \<Rightarrow> if kv = [] then [] else lit ''&k='' @ kv)])"
    by (cases rule: handleGeocodingRequest_cases [of t env axios_get k])
       (auto simp: buildUrl_def kParam_def split: sum.splits option.splits)
next
  have amp: "\<not> (uriUnescaped (of_char CHR ''&'') \<or> (of_char CHR ''&'' :: 16 word) = 0x25)"
    by (simp add: uriUnescaped_def)
  have eq: "\<not> (uriUnescaped (of_char CHR ''='') \<or> (of_char CHR ''='' :: 16 word) = 0x25)"
    by (simp add: uriUnescaped_def)
  show "encodeURIComponent t = Inr enc \<longrightarrow>
        of_char CHR ''&'' \<notin> set enc \<and> of_char CHR ''='' \<notin> set enc"
    using encodeURIComponent_chars [of t enc] amp eq by blast
qed

theorem upstream_url_witness:
  "upstream_calls
     (fst (handleGeocodingRequest (Some (lit ''http://geo:9000'')) (\<lambda>u. Inr (0::nat))
             (lit ''a&k=9'') (Some (lit ''5 5'')))) =
     [lit ''http://geo:9000/geocoding?text=a%26k%3D9&k=5 5'']
   \<and> of_char CHR ''&'' \<notin> set (lit ''a%26k%3D9'')"
proof -
  have e: "encodeURIComponent (lit ''a&k=9'') = Inr (lit ''a%26k%3D9'')"
    by (simp add: url_eval)
  from upstream_url [of "Some (lit ''http://geo:9000'')" "\<lambda>u. Inr (0::nat)" "lit ''a&k=9''"
         "Some (lit ''5 5'')" "lit ''a%26k%3D9''"] e
  show ?thesis by (simp add: url_eval)
qed

section \<open>The upstream client\<close>

text \<open>
  Counterexample to claim C5 as stated: when \<open>axios.get\<close> resolves with the raw text
  of a body that is not JSON, that text comes out as the \<open>results\<close> of a success
  envelope. Nothing in \<open>handleGeocodingRequest\<close> looks at \<open>response.data\<close>.
\<close>

theorem malformed_body_counterexample:
  "handleGeocodingRequest None
     (\<lambda>u. Inr (Raw (lit ''<html>oops</html>'') :: nat response_data))
     (lit ''Paris'') None =
     ([AxiosGet (lit ''http://localhost:5008/geocoding?text=Paris'')],
      Inr \<lparr>results = Some (Raw (lit ''<html>oops</html>'')), status = lit ''success'',
           message = None\<rparr>)"
  by (simp add: run_eval url_eval)

text \<open>One call of \<open>handleGeocodingRequest\<close> sends at most one request, whatever axios does.\<close>

lemma single_attempt:
  "length (upstream_calls (fst (handleGeocodingRequest env axios_get t k))) \<le> 1"
  by (cases rule: handleGeocodingRequest_cases [of t env axios_get k]) simp_all

text \<open>
  Claim C5, as the code has it. A call makes a single attempt: at most one request is
  sent. When \<open>axios.get\<close> rejects, for whatever reason \<open>e\<close>, exactly one request has
  been sent, \<open>e\<close> is logged and \<open>handleGeocodingRequest\<close> throws the Error \<open>Failed to
  communicate with geocoding service\<close>. When \<open>axios.get\<close> resolves, whatever it resolved
  with (\<open>d\<close> is arbitrary, the raw text of an unparsable body included) is returned
  unchecked as the \<open>results\<close> of a success envelope, again after exactly one request.
\<close>

theorem upstream_client_single_attempt:
  "length (upstream_calls (fst (handleGeocodingRequest env axios_get t k))) \<le> 1
   \<and> (buildUrl env t k = Inr url \<and> axios_get url = Inl e \<longrightarrow>
        handleGeocodingRequest env axios_get t k =
          ([AxiosGet url, ConsoleError (lit ''Error calling geocoding service:'') e],
           Inl (Error (lit ''Failed to communicate with geocoding service'')))
        \<and> upstream_calls (fst (handleGeocodingRequest env axios_get t k)) = [url])
   \<and> (buildUrl env t k = Inr url \<and> axios_get url = Inr d \<longrightarrow>
        handleGeocodingRequest env axios_get t k =
          ([AxiosGet url],
           Inr \<lparr>results = Some d, status = lit ''success'', message = None\<rparr>)
        \<and> upstream_calls (fst (handleGeocodingRequest env axios_get t k)) = [url])"
proof (intro conjI impI)
  show "length (upstream_calls (fst (handleGeocodingRequest env axios_get t k))) \<le> 1"
    by (rule single_attempt)
next
  assume a: "buildUrl env t k = Inr url \<and> axios_get url = Inl e"
  then have u: "buildUrl env t k = Inr url" and r: "axios_get url = Inl e" by simp_all
  show h: "handleGeocodingRequest env axios_get t k =
          ([AxiosGet url, ConsoleError (lit ''Error calling geocoding service:'') e],
           Inl (Error (lit ''Failed to communicate with geocoding service'')))"
    using u r by (rule handleGeocodingRequest_rejected [where axios_get = axios_get])
  show "upstream_calls (fst (handleGeocodingRequest env axios_get t k)) = [url]"
    by (simp add: h)
next
  assume a: "buildUrl env t k = Inr url \<and> axios_get url = Inr d"
  then have u: "buildUrl env t k = Inr url" and r: "axios_get url = Inr d" by simp_all
  show h: "handleGeocodingRequest env axios_get t k =
          ([AxiosGet url],
           Inr \<lparr>results = Some d, status = lit ''success'', message = None\<rparr>)"
    using u r by (rule handleGeocodingRequest_resolved [where axios_get = axios_get])
  show "upstream_calls (fst (handleGeocodingRequest env axios_get t k)) = [url]"
    by (simp add: h)
qed

theorem upstream_client_single_attempt_witness:
  "handleGeocodingRequest None
     (\<lambda>u. Inl (Error (lit ''Request failed with status code 503'')) :: thrown + nat response_data)
     (lit ''Paris'') None =
     ([AxiosGet (lit ''http://localhost:5008/geocoding?text=Paris''),
       ConsoleError (lit ''Error calling geocoding service:'')
         (Error (lit ''Request failed with status code 503''))],
      Inl (Error (lit ''Failed to communicate with geocoding service'')))
   \<and> upstream_calls
         (fst (handleGeocodingRequest None (\<lambda>u. Inr (Parsed 4 :: nat response_data))
                 (lit ''Paris'') None)) =
       [lit ''http://localhost:5008/geocoding?text=Paris'']"
proof -
  let ?f = "\<lambda>u::jsstring.
              Inl (Error (lit ''Request failed with status code 503'')) :: thrown + nat response_data"
  let ?g = "\<lambda>u::jsstring. Inr (Parsed 4 :: nat response_data) :: thrown + nat response_data"
  let ?u = "lit ''http://localhost:5008/geocoding?text=Paris''"
  have u: "buildUrl None (lit ''Paris'') None = Inr ?u" by (simp add: url_eval)
  have r: "?f ?u = Inl (Error (lit ''Request failed with status code 503''))" by simp
  have d: "?g ?u = Inr (Parsed 4)" by simp
  from upstream_client_single_attempt
         [where axios_get = ?f and env = None and t = "lit ''Paris''" and k = None and url = ?u
            and e = "Error (lit ''Request failed with status code 503'')"] u r
  have 1: "handleGeocodingRequest None ?f (lit ''Paris'') None =
     ([AxiosGet ?u,
       ConsoleError (lit ''Error calling geocoding service:'')
         (Error (lit ''Request failed with status code 503''))],
      Inl (Error (lit ''Failed to communicate with geocoding service'')))"
    by blast
  from upstream_client_single_attempt
         [where axios_get = ?g and env = None and t = "lit ''Paris''" and k = None and url = ?u
            and d = "Parsed 4"] u d
  have 2: "upstream_calls (fst (handleGeocodingRequest None ?g (lit ''Paris'') None)) = [?u]"
    by blast
  from 1 2 show ?thesis by (rule conjI)
qed

end
